theory Spec2Isabelle
  imports Main "HOL-Library.Char_ord" "HOL-Library.List_Lexorder"
begin

section \<open>Values of the normalized store\<close>

text \<open>
  The patch applier of \<^verbatim>\<open>packages/common/src/operation.ts\<close> works on shallow
  (normalized) JavaScript values. A \<^verbatim>\<open>PropertyValue\<close> is a primitive or an
  \<^verbatim>\<open>ObjectRef\<close>; the latter is a JavaScript object, so strict equality on it
  is identity of the object, not equality of its \<^verbatim>\<open>id\<close> field. The model
  therefore gives every ref object an address next to its id.

  Numbers: the finite numbers are modelled by the integers (a fraction or an infinity
  behaves like any other non-zero number under \<^verbatim>\<open>===\<close> and under truthiness);
  \<^verbatim>\<open>NaN\<close> is kept apart, being the one number that is falsy besides zero and
  not strictly equal to itself.
\<close>

type_synonym ObjectIdentifier = string

datatype JsNumber = Finite int | NaN

datatype Primitive =
    PUndefined
  | PNull
  | PBoolean bool
  | PNumber JsNumber
  | PString string

datatype ObjectRef = ObjectRef (address: nat) (ref_id: ObjectIdentifier)

datatype PropertyValue = Prim Primitive | Ref ObjectRef

text \<open>A slot of an array holds a value or is a hole (a sparse array).\<close>

type_synonym slot = "PropertyValue option"

text \<open>
  The base of a patch: \<^verbatim>\<open>undefined\<close>, \<^verbatim>\<open>null\<close>, a plain object (its
  own properties by key) or an array (its slots, and the named properties an array
  object can carry besides them).
\<close>

datatype Base =
    Undefined
  | Null
  | Object "string \<rightharpoonup> PropertyValue"
  | Array "slot list" "string \<rightharpoonup> PropertyValue"

datatype PropertyName = Key string | Idx int

datatype Only = First | Last

datatype OperationPatch =
    OpInitialize Base
  | OpSet PropertyName PropertyValue
  | OpRemove PropertyName
  | ListPush PropertyValue
  | ListInsert int "PropertyValue option" "PropertyValue list option"
  | ListDelete int int
  | ListMoveByRef ObjectRef int
  | ListMoveByIndex int int
  | ListRemove PropertyValue "Only option"
  | OpDelete
  | ListAdd PropertyValue

record Operation =
  oid :: ObjectIdentifier
  timestamp :: string
  data :: OperationPatch

datatype Error =
    MalformedListInsert
  | TypeError

datatype ConsoleError = ListPatchOnNonArray Base

subsection \<open>JavaScript primitives the applier relies on\<close>

fun truthy :: "PropertyValue \<Rightarrow> bool" where
  "truthy (Ref r) = True"
| "truthy (Prim PUndefined) = False"
| "truthy (Prim PNull) = False"
| "truthy (Prim (PBoolean b)) = b"
| "truthy (Prim (PNumber NaN)) = False"
| "truthy (Prim (PNumber (Finite n))) = (n \<noteq> 0)"
| "truthy (Prim (PString s)) = (s \<noteq> [])"

fun strictEquals :: "PropertyValue \<Rightarrow> PropertyValue \<Rightarrow> bool" where
  "strictEquals (Prim a) (Prim b) = (a = b \<and> a \<noteq> PNumber NaN)"
| "strictEquals (Ref r) (Ref s) = (address r = address s)"
| "strictEquals (Prim a) (Ref s) = False"
| "strictEquals (Ref r) (Prim b) = False"

definition readSlot :: "slot \<Rightarrow> PropertyValue" where
  "readSlot s = (case s of None \<Rightarrow> Prim PUndefined | Some v \<Rightarrow> v)"

text \<open>
  \<^verbatim>\<open>Array.prototype.splice(start, deleteCount, ...items)\<close>: a negative start counts
  from the end, both arguments are clamped to the array. The result is the array after
  the call and the array of removed slots.
\<close>

definition splice :: "slot list \<Rightarrow> int \<Rightarrow> int \<Rightarrow> slot list \<Rightarrow> slot list \<times> slot list" where
  "splice xs start deleteCount items =
     (let len = int (length xs);
          actualStart = (if start < 0 then max (len + start) 0 else min start len);
          actualDeleteCount = min (max deleteCount 0) (len - actualStart);
          s = nat actualStart;
          d = nat actualDeleteCount
      in (take s xs @ items @ drop (s + d) xs, take d (drop s xs)))"

text \<open>\<^verbatim>\<open>spliceResult[0]\<close>: the first removed element, \<^verbatim>\<open>undefined\<close> when
  nothing was removed or a hole was.\<close>

definition firstOf :: "slot list \<Rightarrow> PropertyValue" where
  "firstOf removed = (case removed of [] \<Rightarrow> Prim PUndefined | s # _ \<Rightarrow> readSlot s)"

text \<open>\<^verbatim>\<open>indexOf\<close> and \<^verbatim>\<open>lastIndexOf\<close> compare with strict equality and skip
  holes; \<open>None\<close> stands for the result \<^verbatim>\<open>-1\<close>.\<close>

definition slotEquals :: "PropertyValue \<Rightarrow> slot \<Rightarrow> bool" where
  "slotEquals v s = (case s of None \<Rightarrow> False | Some item \<Rightarrow> strictEquals item v)"

fun indexOf :: "slot list \<Rightarrow> PropertyValue \<Rightarrow> nat option" where
  "indexOf [] v = None"
| "indexOf (x # xs) v = (if slotEquals v x then Some 0 else map_option Suc (indexOf xs v))"

fun lastIndexOf :: "slot list \<Rightarrow> PropertyValue \<Rightarrow> nat option" where
  "lastIndexOf [] v = None"
| "lastIndexOf (x # xs) v =
     (case lastIndexOf xs v of
        Some i \<Rightarrow> Some (Suc i)
      | None \<Rightarrow> if slotEquals v x then Some 0 else None)"

text \<open>
  \<^verbatim>\<open>findIndex\<close> calls its predicate on every slot in order, a hole read as
  \<^verbatim>\<open>undefined\<close>, and stops at the first hit. The predicate can throw.
\<close>

fun findIndex :: "slot list \<Rightarrow> (PropertyValue \<Rightarrow> Error + bool) \<Rightarrow> Error + nat option" where
  "findIndex [] p = Inr None"
| "findIndex (x # xs) p =
     (case p (readSlot x) of
        Inl e \<Rightarrow> Inl e
      | Inr True \<Rightarrow> Inr (Some 0)
      | Inr False \<Rightarrow>
          (case findIndex xs p of
             Inl e \<Rightarrow> Inl e
           | Inr None \<Rightarrow> Inr None
           | Inr (Some i) \<Rightarrow> Inr (Some (Suc i))))"

text \<open>
  Modelled from the spec: \<^verbatim>\<open>findLastIndex\<close> is imported from \<^verbatim>\<open>utils.js\<close>,
  which is not among the sources. The spec has \<^verbatim>\<open>list-remove\<close> with
  \<^verbatim>\<open>only: last\<close> remove one occurrence, the last; the model is the mirror image
  of \<^verbatim>\<open>findIndex\<close>, scanning from the last slot down.
\<close>

definition findLastIndex :: "slot list \<Rightarrow> (PropertyValue \<Rightarrow> Error + bool) \<Rightarrow> Error + nat option" where
  "findLastIndex xs p =
     (case findIndex (rev xs) p of
        Inl e \<Rightarrow> Inl e
      | Inr None \<Rightarrow> Inr None
      | Inr (Some i) \<Rightarrow> Inr (Some (length xs - 1 - i)))"

text \<open>
  The predicate \<^verbatim>\<open>(item) => item.id === valueToRemove.id\<close>: reading a property of
  \<^verbatim>\<open>undefined\<close> or \<^verbatim>\<open>null\<close> throws a TypeError; a boolean, number or string
  has no \<^verbatim>\<open>id\<close>, and \<^verbatim>\<open>undefined\<close> is not the string on the right.
\<close>

fun sameId :: "ObjectRef \<Rightarrow> PropertyValue \<Rightarrow> Error + bool" where
  "sameId r (Prim PUndefined) = Inl TypeError"
| "sameId r (Prim PNull) = Inl TypeError"
| "sameId r (Prim p) = Inr False"
| "sameId r (Ref item) = Inr (ref_id item = ref_id r)"

text \<open>The predicate of \<^verbatim>\<open>list-add\<close>; \<^verbatim>\<open>some\<close> does not visit holes.\<close>

fun alreadyHasItem :: "PropertyValue \<Rightarrow> PropertyValue \<Rightarrow> bool" where
  "alreadyHasItem (Ref v) (Ref item) = (ref_id item = ref_id v)"
| "alreadyHasItem v item = strictEquals item v"

definition some :: "slot list \<Rightarrow> (PropertyValue \<Rightarrow> bool) \<Rightarrow> bool" where
  "some xs p = list_ex (\<lambda>s. case s of None \<Rightarrow> False | Some item \<Rightarrow> p item) xs"

subsection \<open>Property names\<close>

text \<open>
  A property name is a string or a number; a number names the property of its decimal
  string (JavaScript prints an integer so below \<open>10^21\<close>). On an array a name
  that is an array index (a canonical decimal below \<open>2^32 - 1\<close>) names a slot,
  any other name a named property of the array object.
  Names are taken as ordinary keys: the accessor keys of JavaScript (\<^verbatim>\<open>length\<close> on
  an array, \<^verbatim>\<open>__proto__\<close>) are not property names of the data model and get no
  behaviour of their own here.
\<close>

definition digitChar :: "nat \<Rightarrow> char" where
  "digitChar d = ''0123456789'' ! d"

function showNat :: "nat \<Rightarrow> string" where
  "showNat n = (if n < 10 then [digitChar n] else showNat (n div 10) @ [digitChar (n mod 10)])"
  by pat_completeness auto
termination
  by (relation "measure id") auto

declare showNat.simps [simp del]

definition showInt :: "int \<Rightarrow> string" where
  "showInt n = (if n < 0 then CHR ''-'' # showNat (nat (- n)) else showNat (nat n))"

fun toPropertyKey :: "PropertyName \<Rightarrow> string" where
  "toPropertyKey (Key s) = s"
| "toPropertyKey (Idx n) = showInt n"

fun position :: "char \<Rightarrow> string \<Rightarrow> nat option" where
  "position c [] = None"
| "position c (d # ds) = (if c = d then Some 0 else map_option Suc (position c ds))"

definition digitValue :: "char \<Rightarrow> nat option" where
  "digitValue c = position c ''0123456789''"

fun readNat :: "nat \<Rightarrow> string \<Rightarrow> nat option" where
  "readNat acc [] = Some acc"
| "readNat acc (c # cs) =
     (case digitValue c of None \<Rightarrow> None | Some d \<Rightarrow> readNat (10 * acc + d) cs)"

definition arrayIndex :: "string \<Rightarrow> nat option" where
  "arrayIndex s =
     (if s = [] then None
      else case readNat 0 s of
             None \<Rightarrow> None
           | Some n \<Rightarrow> if showNat n = s \<and> n < 4294967295 then Some n else None)"

definition setSlot :: "slot list \<Rightarrow> nat \<Rightarrow> PropertyValue \<Rightarrow> slot list" where
  "setSlot xs i v =
     (if i < length xs then xs[i := Some v]
      else xs @ replicate (i - length xs) None @ [Some v])"

definition deleteSlot :: "slot list \<Rightarrow> nat \<Rightarrow> slot list" where
  "deleteSlot xs i = (if i < length xs then xs[i := None] else xs)"


section \<open>The patch applier\<close>

text \<open>
  \<^verbatim>\<open>applyPatch\<close> updates its argument in place and returns it, except for
  \<^verbatim>\<open>delete\<close> and \<^verbatim>\<open>initialize\<close>, which return another value and leave
  the argument as it was. The model keeps the two apart: \<open>ReturnBase b\<close> is
  \<^verbatim>\<open>return base\<close>, with \<open>b\<close> the contents of the argument object after the
  call, and \<open>ReturnNew v\<close> is the return of a value that is not the argument.
  An exception is \<open>Inl\<close>; the calls of \<^verbatim>\<open>console.error\<close> are collected.

  \<^verbatim>\<open>cloneDeep\<close> of \<^verbatim>\<open>utils.js\<close> is not among the sources and is a parameter.
  The \<^verbatim>\<open>default\<close> branch of the switch (an unknown \<^verbatim>\<open>op\<close>) has no
  counterpart: \<open>OperationPatch\<close> has the eleven variants of the union and no other.
\<close>

datatype Returned = ReturnBase Base | ReturnNew Base

fun returnedValue :: "Returned \<Rightarrow> Base" where
  "returnedValue (ReturnBase b) = b"
| "returnedValue (ReturnNew v) = v"

definition absent :: "Base \<Rightarrow> bool" where
  "absent base = (base = Undefined \<or> base = Null)"

fun isInitialize :: "OperationPatch \<Rightarrow> bool" where
  "isInitialize (OpInitialize v) = True"
| "isInitialize p = False"

fun isArray :: "Base \<Rightarrow> bool" where
  "isArray (Array xs ps) = True"
| "isArray b = False"

definition listCheck :: "Base \<Rightarrow> bool \<times> ConsoleError list" where
  "listCheck obj = (if isArray obj then (True, []) else (False, [ListPatchOnNonArray obj]))"

definition arrayIndexOfName :: "PropertyName \<Rightarrow> nat option" where
  "arrayIndexOfName name =
     (case name of
        Key s \<Rightarrow> arrayIndex s
      | Idx n \<Rightarrow> if 0 \<le> n \<and> n < 4294967295 then Some (nat n) else None)"

text \<open>\<^verbatim>\<open>baseAsAny[patch.name] = patch.value\<close>\<close>

fun setProperty :: "Base \<Rightarrow> PropertyName \<Rightarrow> PropertyValue \<Rightarrow> Error + Base" where
  "setProperty Undefined name v = Inl TypeError"
| "setProperty Null name v = Inl TypeError"
| "setProperty (Object m) name v = Inr (Object (m(toPropertyKey name \<mapsto> v)))"
| "setProperty (Array xs ps) name v =
     (case arrayIndexOfName name of
        Some i \<Rightarrow> Inr (Array (setSlot xs i v) ps)
      | None \<Rightarrow> Inr (Array xs (ps(toPropertyKey name \<mapsto> v))))"

text \<open>\<^verbatim>\<open>delete baseAsAny[patch.name]\<close>; on an array slot it leaves a hole.\<close>

fun deleteProperty :: "Base \<Rightarrow> PropertyName \<Rightarrow> Error + Base" where
  "deleteProperty Undefined name = Inl TypeError"
| "deleteProperty Null name = Inl TypeError"
| "deleteProperty (Object m) name = Inr (Object (m(toPropertyKey name := None)))"
| "deleteProperty (Array xs ps) name =
     (case arrayIndexOfName name of
        Some i \<Rightarrow> Inr (Array (deleteSlot xs i) ps)
      | None \<Rightarrow> Inr (Array xs (ps(toPropertyKey name := None))))"

text \<open>The search of one round of the \<^verbatim>\<open>list-remove\<close> loop.\<close>

definition locate :: "slot list \<Rightarrow> PropertyValue \<Rightarrow> Only option \<Rightarrow> Error + nat option" where
  "locate xs valueToRemove only =
     (if only = Some Last then
        (case valueToRemove of
           Ref r \<Rightarrow> findLastIndex xs (sameId r)
         | Prim p \<Rightarrow> Inr (lastIndexOf xs valueToRemove))
      else
        (case valueToRemove of
           Ref r \<Rightarrow> findIndex xs (sameId r)
         | Prim p \<Rightarrow> Inr (indexOf xs valueToRemove)))"

lemma indexOf_less: "indexOf xs v = Some i \<Longrightarrow> i < length xs"
  by (induction xs arbitrary: i) (auto split: if_splits)

lemma lastIndexOf_less: "lastIndexOf xs v = Some i \<Longrightarrow> i < length xs"
  by (induction xs arbitrary: i) (auto split: if_splits option.splits)

lemma findIndex_less: "findIndex xs p = Inr (Some i) \<Longrightarrow> i < length xs"
  by (induction xs arbitrary: i) (auto split: sum.splits bool.splits option.splits)

lemma findLastIndex_less: "findLastIndex xs p = Inr (Some i) \<Longrightarrow> i < length xs"
  by (auto simp: findLastIndex_def split: sum.splits option.splits dest!: findIndex_less)

lemma locate_less: "locate xs v only = Inr (Some i) \<Longrightarrow> i < length xs"
  by (auto simp: locate_def split: if_splits PropertyValue.splits
      dest: indexOf_less lastIndexOf_less findIndex_less findLastIndex_less)

lemma splice_remove_one:
  "i < length xs \<Longrightarrow> fst (splice xs (int i) 1 []) = take i xs @ drop (Suc i) xs"
  by (simp add: splice_def Let_def min_def max_def)

lemma length_splice_remove_one:
  "i < length xs \<Longrightarrow> length (fst (splice xs (int i) 1 [])) < length xs"
  by (simp add: splice_remove_one)

text \<open>
  The \<^verbatim>\<open>do ... while (!patch.only && index !== -1)\<close> loop of \<^verbatim>\<open>list-remove\<close>.
\<close>

function listRemoveLoop :: "slot list \<Rightarrow> PropertyValue \<Rightarrow> Only option \<Rightarrow> Error + slot list" where
  "listRemoveLoop xs valueToRemove only =
     (case locate xs valueToRemove only of
        Inl e \<Rightarrow> Inl e
      | Inr None \<Rightarrow> Inr xs
      | Inr (Some i) \<Rightarrow>
          (if only = None
           then listRemoveLoop (fst (splice xs (int i) 1 [])) valueToRemove only
           else Inr (fst (splice xs (int i) 1 []))))"
  by pat_completeness auto
termination
  by (relation "measure (\<lambda>(xs, v, only). length xs)")
     (auto dest!: locate_less simp: length_splice_remove_one)

declare listRemoveLoop.simps [simp del]

text \<open>A list patch: \<^verbatim>\<open>if (listCheck(base)) { ... }\<close>, the update being \<open>f\<close>.\<close>

definition listPatch ::
  "Base \<Rightarrow> (slot list \<Rightarrow> Error + slot list) \<Rightarrow> ConsoleError list \<times> (Error + Returned)" where
  "listPatch base f =
     (let (isList, logged) = listCheck base in
      if isList then
        (case base of
           Array xs ps \<Rightarrow>
             (logged, case f xs of Inl e \<Rightarrow> Inl e | Inr xs' \<Rightarrow> Inr (ReturnBase (Array xs' ps)))
         | _ \<Rightarrow> (logged, Inr (ReturnBase base)))
      else (logged, Inr (ReturnBase base)))"

definition listMoveByIndex :: "slot list \<Rightarrow> int \<Rightarrow> int \<Rightarrow> slot list" where
  "listMoveByIndex xs from to =
     (let (xs1, spliceResult) = splice xs from 1 []
      in fst (splice xs1 to 0 [Some (firstOf spliceResult)]))"

definition listMoveByRef :: "slot list \<Rightarrow> ObjectRef \<Rightarrow> int \<Rightarrow> slot list" where
  "listMoveByRef xs v target =
     (let index = (case indexOf xs (Ref v) of None \<Rightarrow> - 1 | Some i \<Rightarrow> int i);
          (xs1, spliceResult) = splice xs index 1 []
      in fst (splice xs1 target 0 [Some (firstOf spliceResult)]))"

definition listInsert ::
  "slot list \<Rightarrow> int \<Rightarrow> PropertyValue option \<Rightarrow> PropertyValue list option \<Rightarrow> Error + slot list" where
  "listInsert xs index v vs =
     (let valueTruthy = (case v of None \<Rightarrow> False | Some x \<Rightarrow> truthy x) in
      if \<not> valueTruthy \<and> vs = None then Inl MalformedListInsert
      else if valueTruthy then Inr (fst (splice xs index 0 [Some (the v)]))
      else Inr (fst (splice xs index 0 (map Some (the vs)))))"

definition listAdd :: "slot list \<Rightarrow> PropertyValue \<Rightarrow> slot list" where
  "listAdd xs v = (if some xs (alreadyHasItem v) then xs else xs @ [Some v])"

definition applyPatchOutcome ::
  "(Base \<Rightarrow> Base) \<Rightarrow> Base \<Rightarrow> OperationPatch \<Rightarrow> ConsoleError list \<times> (Error + Returned)" where
  "applyPatchOutcome cloneDeep base patch =
     (if (base = Undefined \<or> base = Null) \<and> \<not> isInitialize patch then ([], Inr (ReturnBase base))
      else
        (case patch of
           OpSet name v \<Rightarrow> ([], map_sum id ReturnBase (setProperty base name v))
         | OpRemove name \<Rightarrow> ([], map_sum id ReturnBase (deleteProperty base name))
         | ListPush v \<Rightarrow> listPatch base (\<lambda>xs. Inr (xs @ [Some v]))
         | ListDelete index count \<Rightarrow> listPatch base (\<lambda>xs. Inr (fst (splice xs index count [])))
         | ListMoveByIndex from to \<Rightarrow> listPatch base (\<lambda>xs. Inr (listMoveByIndex xs from to))
         | ListRemove v only \<Rightarrow> listPatch base (\<lambda>xs. listRemoveLoop xs v only)
         | ListAdd v \<Rightarrow> listPatch base (\<lambda>xs. Inr (listAdd xs v))
         | ListMoveByRef v index \<Rightarrow> listPatch base (\<lambda>xs. Inr (listMoveByRef xs v index))
         | ListInsert index v vs \<Rightarrow> listPatch base (\<lambda>xs. listInsert xs index v vs)
         | OpDelete \<Rightarrow> ([], Inr (ReturnNew Undefined))
         | OpInitialize v \<Rightarrow> ([], Inr (ReturnNew (cloneDeep v)))))"

text \<open>What \<^verbatim>\<open>applyPatch\<close> returns or throws, and what it writes to the console.\<close>

definition applyPatch :: "(Base \<Rightarrow> Base) \<Rightarrow> Base \<Rightarrow> OperationPatch \<Rightarrow> Error + Base" where
  "applyPatch cloneDeep base patch =
     map_sum id returnedValue (snd (applyPatchOutcome cloneDeep base patch))"

definition applyPatchConsole :: "(Base \<Rightarrow> Base) \<Rightarrow> Base \<Rightarrow> OperationPatch \<Rightarrow> ConsoleError list" where
  "applyPatchConsole cloneDeep base patch = fst (applyPatchOutcome cloneDeep base patch)"

text \<open>
  \<^verbatim>\<open>applyOperations\<close>: the loop \<^verbatim>\<open>cur = applyPatch(base, op.data)\<close>. Every round
  passes the object \<^verbatim>\<open>base\<close>; \<open>heap\<close> is what that object holds by now, after the
  in-place updates of the rounds before, and \<open>cur\<close> is the variable of the source.
\<close>

fun applyOperationsLoop ::
  "(Base \<Rightarrow> Base) \<Rightarrow> Base \<Rightarrow> Base \<Rightarrow> 'a Operation_scheme list \<Rightarrow> Error + Base" where
  "applyOperationsLoop cloneDeep heap cur [] = Inr cur"
| "applyOperationsLoop cloneDeep heap cur (op # ops) =
     (case snd (applyPatchOutcome cloneDeep heap (data op)) of
        Inl e \<Rightarrow> Inl e
      | Inr (ReturnBase b) \<Rightarrow> applyOperationsLoop cloneDeep b b ops
      | Inr (ReturnNew v) \<Rightarrow> applyOperationsLoop cloneDeep heap v ops)"

definition applyOperations ::
  "(Base \<Rightarrow> Base) \<Rightarrow> Base \<Rightarrow> 'a Operation_scheme list \<Rightarrow> Error + Base" where
  "applyOperations cloneDeep base operations = applyOperationsLoop cloneDeep base base operations"

text \<open>
  The fold the specification asks for, in its words: each patch is applied to the
  result of applying all earlier patches.
\<close>

fun foldPatches ::
  "(Base \<Rightarrow> Base) \<Rightarrow> Base \<Rightarrow> 'a Operation_scheme list \<Rightarrow> Error + Base" where
  "foldPatches cloneDeep cur [] = Inr cur"
| "foldPatches cloneDeep cur (op # ops) =
     (case applyPatch cloneDeep cur (data op) of
        Inl e \<Rightarrow> Inl e
      | Inr cur' \<Rightarrow> foldPatches cloneDeep cur' ops)"

text \<open>The patches that target a list.\<close>

fun listTargeted :: "OperationPatch \<Rightarrow> bool" where
  "listTargeted (ListPush v) = True"
| "listTargeted (ListInsert i v vs) = True"
| "listTargeted (ListDelete i c) = True"
| "listTargeted (ListMoveByIndex f t) = True"
| "listTargeted (ListMoveByRef v i) = True"
| "listTargeted (ListRemove v only) = True"
| "listTargeted (ListAdd v) = True"
| "listTargeted p = False"

text \<open>
  A sample \<^verbatim>\<open>cloneDeep\<close> for the examples: the copy holds the same primitives, and
  its ref objects are other objects than the original's (their addresses moved up by
  \<open>n\<close>).
\<close>

fun cloneValueAt :: "nat \<Rightarrow> PropertyValue \<Rightarrow> PropertyValue" where
  "cloneValueAt n (Prim p) = Prim p"
| "cloneValueAt n (Ref r) = Ref (ObjectRef (address r + n) (ref_id r))"

fun cloneDeepAt :: "nat \<Rightarrow> Base \<Rightarrow> Base" where
  "cloneDeepAt n Undefined = Undefined"
| "cloneDeepAt n Null = Null"
| "cloneDeepAt n (Object m) = Object (map_option (cloneValueAt n) \<circ> m)"
| "cloneDeepAt n (Array xs ps) =
     Array (map (map_option (cloneValueAt n)) xs) (map_option (cloneValueAt n) \<circ> ps)"

text \<open>
  Slots that read as \<^verbatim>\<open>undefined\<close> or \<^verbatim>\<open>null\<close> (a hole among them), and
  slots that hold a ref of the id of \<open>r\<close>.
\<close>

definition nullish :: "slot \<Rightarrow> bool" where
  "nullish s = (readSlot s = Prim PUndefined \<or> readSlot s = Prim PNull)"

definition hasId :: "ObjectRef \<Rightarrow> slot \<Rightarrow> bool" where
  "hasId r s = (case s of Some (Ref item) \<Rightarrow> ref_id item = ref_id r | _ \<Rightarrow> False)"


section \<open>The metadata facade\<close>

text \<open>
  \<^verbatim>\<open>packages/web/src/index.ts\<close>, class \<^verbatim>\<open>Metadata\<close>. The calls are asynchronous
  in the source; each runs in one transaction and the model runs it in one step.
\<close>

subsection \<open>The schema check\<close>

text \<open>
  A schema has an integer \<^verbatim>\<open>version\<close>; the rest of \<^verbatim>\<open>StorageSchema\<close> is
  declared outside the sources and is left as a type parameter, together with
  \<^verbatim>\<open>JSON.stringify\<close> on schemas. The schema store holds one schema or none.
\<close>

record 'c StorageSchema =
  version :: int
  collections :: 'c

datatype MetadataError = SchemaMismatch | PatchFailed Error

definition updateSchema ::
  "('c StorageSchema \<Rightarrow> string) \<Rightarrow> 'c StorageSchema option \<Rightarrow> 'c StorageSchema \<Rightarrow> int option
    \<Rightarrow> MetadataError + 'c StorageSchema option" where
  "updateSchema stringify stored schema overrideConflict =
     (case stored of
        Some storedSchema \<Rightarrow>
          if overrideConflict = Some (version storedSchema)
             \<and> version storedSchema = version schema
             \<and> stringify storedSchema \<noteq> stringify schema
          then Inl SchemaMismatch
          else Inr (Some schema)
      | None \<Rightarrow> Inr (Some schema))"

subsection \<open>The stores\<close>

text \<open>
  Modelled from the spec: the classes \<^verbatim>\<open>OperationsStore\<close> and
  \<^verbatim>\<open>BaselinesStore\<close> are not among the sources. The operations store holds rows
  keyed by the compound \<open>(oid, timestamp)\<close>; a scan for one OID visits its rows in
  timestamp order, up to and including \<^verbatim>\<open>to\<close>. The baselines store maps an OID to
  its baseline, with \<^verbatim>\<open>get\<close>, \<^verbatim>\<open>set\<close> and \<^verbatim>\<open>delete\<close>. Timestamps are
  strings compared as JavaScript compares them, character by character.
\<close>

record ClientOperation = Operation +
  isLocal :: bool

record DocumentBaseline =
  baselineOid :: ObjectIdentifier
  snapshot :: Base
  baselineTimestamp :: string

record MetaDb =
  operations :: "ClientOperation list"
  baselines :: "ObjectIdentifier \<rightharpoonup> DocumentBaseline"

definition iterateOverAllOperationsForEntity ::
  "ClientOperation list \<Rightarrow> ObjectIdentifier \<Rightarrow> string \<Rightarrow> ClientOperation list" where
  "iterateOverAllOperationsForEntity rows entity to =
     sort_key timestamp (filter (\<lambda>r. oid r = entity \<and> timestamp r \<le> to) rows)"

definition storeDelete :: "ObjectIdentifier \<times> string \<Rightarrow> ClientOperation list \<Rightarrow> ClientOperation list" where
  "storeDelete oid_timestamp rows = filter (\<lambda>r. (oid r, timestamp r) \<noteq> oid_timestamp) rows"

subsection \<open>Rebase\<close>

text \<open>
  The callback of the scan in \<^verbatim>\<open>rebase\<close>, run over the scanned rows: a patch newer
  than the baseline (any patch, when there is no baseline) is applied to
  \<^verbatim>\<open>current\<close>, and the row is deleted from the store. An exception of
  \<^verbatim>\<open>applyPatch\<close> ends the call.
\<close>

fun rebaseScan ::
  "(Base \<Rightarrow> Base) \<Rightarrow> DocumentBaseline option \<Rightarrow> ClientOperation list \<Rightarrow> Base
    \<Rightarrow> ClientOperation list \<Rightarrow> Error + Base \<times> ClientOperation list" where
  "rebaseScan cloneDeep baseline [] current rows = Inr (current, rows)"
| "rebaseScan cloneDeep baseline (patch # scanned) current rows =
     (case (if baseline = None \<or> timestamp patch > baselineTimestamp (the baseline)
            then applyPatch cloneDeep current (data patch)
            else Inr current) of
        Inl e \<Rightarrow> Inl e
      | Inr current' \<Rightarrow>
          rebaseScan cloneDeep baseline scanned current'
            (storeDelete (oid patch, timestamp patch) rows))"

text \<open>
  \<^verbatim>\<open>rebase(oid, upTo)\<close>. \<^verbatim>\<open>assignOid\<close> of \<^verbatim>\<open>oids.js\<close> is not among the
  sources and is a parameter: the contents of the snapshot object once it carries its
  OID. The result is the database after the call and the baseline returned.
\<close>

definition rebase ::
  "(Base \<Rightarrow> Base) \<Rightarrow> (Base \<Rightarrow> ObjectIdentifier \<Rightarrow> Base) \<Rightarrow> MetaDb \<Rightarrow> ObjectIdentifier \<Rightarrow> string
    \<Rightarrow> MetadataError + MetaDb \<times> DocumentBaseline" where
  "rebase cloneDeep assignOidBase db entity upTo =
     (let baseline = baselines db entity;
          current0 = (case baseline of
                        None \<Rightarrow> Undefined
                      | Some b \<Rightarrow> if absent (snapshot b) then Undefined else snapshot b)
      in case rebaseScan cloneDeep baseline
                (iterateOverAllOperationsForEntity (operations db) entity upTo)
                current0 (operations db) of
           Inl e \<Rightarrow> Inl (PatchFailed e)
         | Inr (current, rows) \<Rightarrow>
             (let stamped = (if absent current then current else assignOidBase current entity);
                  newBaseline = \<lparr> baselineOid = entity, snapshot = stamped, baselineTimestamp = upTo \<rparr>
              in Inr (\<lparr> operations = rows,
                        baselines = (if absent current
                                     then (baselines db)(entity := None)
                                     else (baselines db)(entity \<mapsto> newBaseline)) \<rparr>,
                      newBaseline)))"

text \<open>
  A sample \<^verbatim>\<open>assignOid\<close> for the examples: the OID is kept under a key of the
  object, as the design notes of the specification describe the source.
\<close>

fun assignOidKey :: "Base \<Rightarrow> ObjectIdentifier \<Rightarrow> Base" where
  "assignOidKey (Object m) i = Object (m(''@@oid'' \<mapsto> Prim (PString i)))"
| "assignOidKey (Array xs ps) i = Array xs (ps(''@@oid'' \<mapsto> Prim (PString i)))"
| "assignOidKey b i = b"

text \<open>
  An example database: a baseline of \<^verbatim>\<open>todo/a:x\<close> at timestamp 1, operations on it
  at the timestamps 1 (folded into the baseline already), 2, 3 and 4, and an operation
  on another object; and the database and baseline a rebase up to 3 leaves.
\<close>

definition exampleDb :: MetaDb where
  "exampleDb =
     \<lparr> operations =
         [\<lparr>oid = ''todo/a:x'', timestamp = ''3'',
           data = OpSet (Key ''count'') (Prim (PNumber (Finite 3))), isLocal = True\<rparr>,
          \<lparr>oid = ''todo/a:x'', timestamp = ''1'',
           data = OpSet (Key ''title'') (Prim (PString ''stale'')), isLocal = True\<rparr>,
          \<lparr>oid = ''todo/b:y'', timestamp = ''2'', data = OpDelete, isLocal = False\<rparr>,
          \<lparr>oid = ''todo/a:x'', timestamp = ''2'',
           data = OpSet (Key ''done'') (Prim (PBoolean True)), isLocal = True\<rparr>,
          \<lparr>oid = ''todo/a:x'', timestamp = ''4'', data = OpDelete, isLocal = True\<rparr>],
       baselines =
         [''todo/a:x'' \<mapsto>
            \<lparr>baselineOid = ''todo/a:x'',
             snapshot = Object [''title'' \<mapsto> Prim (PString ''hi'')],
             baselineTimestamp = ''1''\<rparr>] \<rparr>"

definition exampleBaseline :: DocumentBaseline where
  "exampleBaseline =
     \<lparr>baselineOid = ''todo/a:x'',
      snapshot = Object [''title'' \<mapsto> Prim (PString ''hi''),
                         ''done'' \<mapsto> Prim (PBoolean True),
                         ''count'' \<mapsto> Prim (PNumber (Finite 3)),
                         ''@@oid'' \<mapsto> Prim (PString ''todo/a:x'')],
      baselineTimestamp = ''3''\<rparr>"

definition exampleDbRebased :: MetaDb where
  "exampleDbRebased =
     \<lparr> operations =
         [\<lparr>oid = ''todo/b:y'', timestamp = ''2'', data = OpDelete, isLocal = False\<rparr>,
          \<lparr>oid = ''todo/a:x'', timestamp = ''4'', data = OpDelete, isLocal = True\<rparr>],
       baselines = [''todo/a:x'' \<mapsto> exampleBaseline] \<rparr>"


section \<open>The diff engine\<close>

text \<open>
  \<^verbatim>\<open>diffToPatches\<close> of \<^verbatim>\<open>operation.ts\<close> compares two documents, which are
  nested JavaScript values: a primitive, an object (its own properties in the order of
  \<^verbatim>\<open>Object.entries\<close>) or an array. Values are trees, as the specification
  requires. A slot of an array is only ever read by index, where a hole reads as
  \<^verbatim>\<open>undefined\<close>, so arrays are plain lists here.

  Modelled from the spec: \<^verbatim>\<open>oids.js\<close> and \<^verbatim>\<open>utils.js\<close> are not among the
  sources. Of the functions imported from them, \<^verbatim>\<open>assignOid\<close> stamps a value with
  a hidden identity and \<^verbatim>\<open>maybeGetOid\<close> returns it if present (an object or array
  carries its OID beside its properties; a primitive has none); \<^verbatim>\<open>getOid\<close> is
  \<^verbatim>\<open>maybeGetOid\<close> failing where there is no OID; \<^verbatim>\<open>isObject\<close> holds of
  objects and arrays.
\<close>

datatype JsValue =
    JPrim Primitive
  | JObject "ObjectIdentifier option" "(string \<times> JsValue) list"
  | JArray "ObjectIdentifier option" "JsValue list"

fun isObject :: "JsValue \<Rightarrow> bool" where
  "isObject (JPrim p) = False"
| "isObject v = True"

fun maybeGetOid :: "JsValue \<Rightarrow> ObjectIdentifier option" where
  "maybeGetOid (JPrim p) = None"
| "maybeGetOid (JObject i props) = i"
| "maybeGetOid (JArray i xs) = i"

fun assignOid :: "JsValue \<Rightarrow> ObjectIdentifier \<Rightarrow> JsValue" where
  "assignOid (JPrim p) i = JPrim p"
| "assignOid (JObject old props) i = JObject (Some i) props"
| "assignOid (JArray old xs) i = JArray (Some i) xs"

datatype DiffError = CannotDiffArrayWithObject | NoOidAssigned

definition getOid :: "JsValue \<Rightarrow> DiffError + ObjectIdentifier" where
  "getOid v = (case maybeGetOid v of None \<Rightarrow> Inl NoOidAssigned | Some i \<Rightarrow> Inr i)"

text \<open>
  The remaining helpers are parameters of the model. \<^verbatim>\<open>getNow\<close> and
  \<^verbatim>\<open>createSubId\<close> are closures the caller passes; \<open>'w\<close> is the state they run
  on (the clock and the source of new ids). \<^verbatim>\<open>ensureOid\<close> gives the OID a
  value carries after the call, made from the parent's OID, the key and
  \<^verbatim>\<open>createSubId\<close> where the value had none; \<^verbatim>\<open>assignOidsToAllSubObjects\<close> returns the value with every
  sub-object stamped; \<^verbatim>\<open>normalize\<close> returns the entries of its map, in the order
  the map iterates them; \<^verbatim>\<open>createRef\<close>, \<^verbatim>\<open>isOidKey\<close> and
  \<^verbatim>\<open>removeOid\<close> are as in the source.
\<close>

record 'w Helpers =
  getNow :: "'w \<Rightarrow> string \<times> 'w"
  ensureOid :: "JsValue \<Rightarrow> ObjectIdentifier \<Rightarrow> PropertyName \<Rightarrow> 'w \<Rightarrow> ObjectIdentifier \<times> 'w"
  createRef :: "ObjectIdentifier \<Rightarrow> ObjectRef"
  isOidKey :: "string \<Rightarrow> bool"
  assignOidsToAllSubObjects :: "JsValue \<Rightarrow> 'w \<Rightarrow> JsValue \<times> 'w"
  normalizeValue :: "JsValue \<Rightarrow> (ObjectIdentifier \<times> Base) list"
  removeOid :: "Base \<Rightarrow> Base"

record Options =
  mergeUnknownObjects :: bool
  defaultUndefined :: bool

text \<open>
  \<^verbatim>\<open>patches.push({ oid, timestamp: getNow(), data })\<close>, once and for a list of
  targets and patches in a row.
\<close>

fun pushAll :: "'w Helpers \<Rightarrow> (ObjectIdentifier \<times> OperationPatch) list \<Rightarrow> Operation list \<Rightarrow> 'w
    \<Rightarrow> Operation list \<times> 'w" where
  "pushAll h [] patches w = (patches, w)"
| "pushAll h ((i, d) # rest) patches w =
     (let (now, w') = getNow h w
      in pushAll h rest (patches @ [\<lparr>oid = i, timestamp = now, data = d\<rparr>]) w')"

definition push :: "'w Helpers \<Rightarrow> ObjectIdentifier \<Rightarrow> OperationPatch \<Rightarrow> Operation list \<Rightarrow> 'w
    \<Rightarrow> Operation list \<times> 'w" where
  "push h i d patches w =
     (let (now, w') = getNow h w in (patches @ [\<lparr>oid = i, timestamp = now, data = d\<rparr>], w'))"

text \<open>\<^verbatim>\<open>initialToPatches\<close>: one \<^verbatim>\<open>initialize\<close> per entry of the normalized value.\<close>

fun emitInitialize :: "'w Helpers \<Rightarrow> (ObjectIdentifier \<times> Base) list \<Rightarrow> Operation list \<Rightarrow> 'w
    \<Rightarrow> Operation list \<times> 'w" where
  "emitInitialize h [] patches w = (patches, w)"
| "emitInitialize h ((key, v) # rest) patches w =
     (let (patches', w') = push h key (OpInitialize (removeOid h v)) patches w
      in emitInitialize h rest patches' w')"

definition initialToPatches ::
  "'w Helpers \<Rightarrow> JsValue \<Rightarrow> ObjectIdentifier \<Rightarrow> Operation list \<Rightarrow> 'w \<Rightarrow> Operation list \<times> 'w" where
  "initialToPatches h initial rootOid patches w =
     (let (stamped, w1) = assignOidsToAllSubObjects h (assignOid initial rootOid) w
      in emitInitialize h (normalizeValue h stamped) patches w1)"

text \<open>
  The choice of the OID of a new value (the \<^verbatim>\<open>if (!options.mergeUnknownObjects)\<close>
  block of \<^verbatim>\<open>diffItems\<close>). An OID is tested for truthiness there: the empty
  string counts as none.
\<close>

definition truthyOid :: "ObjectIdentifier option \<Rightarrow> bool" where
  "truthyOid i = (case i of None \<Rightarrow> False | Some s \<Rightarrow> s \<noteq> [])"

definition resolveValueOid ::
  "'w Helpers \<Rightarrow> Options \<Rightarrow> ObjectIdentifier \<Rightarrow> PropertyName \<Rightarrow> JsValue \<Rightarrow> JsValue \<Rightarrow> 'w
    \<Rightarrow> ObjectIdentifier \<times> 'w" where
  "resolveValueOid h options parent key v oldValue w =
     (if \<not> mergeUnknownObjects options then ensureOid h v parent key w
      else if \<not> truthyOid (maybeGetOid v) \<and> truthyOid (maybeGetOid oldValue)
           then (the (maybeGetOid oldValue), w)
           else ensureOid h v parent key w)"

text \<open>\<^verbatim>\<open>from[key]\<close> and \<^verbatim>\<open>from[i]\<close>: \<^verbatim>\<open>undefined\<close> where there is no
  such own property or slot.\<close>

definition readProperty :: "(string \<times> JsValue) list \<Rightarrow> string \<Rightarrow> JsValue" where
  "readProperty props key = (case map_of props key of None \<Rightarrow> JPrim PUndefined | Some v \<Rightarrow> v)"

definition readElement :: "JsValue list \<Rightarrow> nat \<Rightarrow> JsValue" where
  "readElement xs i = (if i < length xs then xs ! i else JPrim PUndefined)"

text \<open>
  The two loops that close a diff: a \<^verbatim>\<open>delete\<close> for every dropped element of an
  array that has a (truthy) OID, and a \<^verbatim>\<open>remove\<close> for every key left in
  \<^verbatim>\<open>oldKeys\<close>.
\<close>

fun emitDeletes :: "'w Helpers \<Rightarrow> JsValue list \<Rightarrow> Operation list \<Rightarrow> 'w \<Rightarrow> Operation list \<times> 'w" where
  "emitDeletes h [] patches w = (patches, w)"
| "emitDeletes h (v # rest) patches w =
     (if truthyOid (maybeGetOid v)
      then (let (patches', w') = push h (the (maybeGetOid v)) OpDelete patches w
            in emitDeletes h rest patches' w')
      else emitDeletes h rest patches w)"

fun emitRemoves :: "'w Helpers \<Rightarrow> ObjectIdentifier \<Rightarrow> string list \<Rightarrow> Operation list \<Rightarrow> 'w
    \<Rightarrow> Operation list \<times> 'w" where
  "emitRemoves h parent [] patches w = (patches, w)"
| "emitRemoves h parent (key # keys) patches w =
     (if isOidKey h key then emitRemoves h parent keys patches w
      else (let (patches', w') = push h parent (OpRemove (Key key)) patches w
            in emitRemoves h parent keys patches' w'))"

text \<open>The size of a value, by which the recursion of the diff terminates.\<close>

fun jsize :: "JsValue \<Rightarrow> nat" where
  "jsize (JPrim p) = 0"
| "jsize (JObject i props) = Suc (sum_list (map (\<lambda>kv. Suc (jsize (snd kv))) props))"
| "jsize (JArray i xs) = Suc (sum_list (map (\<lambda>v. Suc (jsize v)) xs))"

lemma jsize_assignOid [simp]: "jsize (assignOid v i) = jsize v"
  by (cases v) auto

text \<open>
  \<^verbatim>\<open>diffToPatches\<close> with its closure \<^verbatim>\<open>diffItems\<close>, and the two loops over
  the elements and over the entries of \<^verbatim>\<open>to\<close>. The list \<^verbatim>\<open>patches\<close> is
  appended to in place in the source; the model passes it on, with the state of the
  closures. The OIDs stamped on \<^verbatim>\<open>to\<close> on the way are not returned: the
  operations do not depend on them in a tree.
\<close>

function
  diffToPatches ::
    "'w Helpers \<Rightarrow> Options \<Rightarrow> JsValue \<Rightarrow> JsValue \<Rightarrow> PropertyName list \<Rightarrow> Operation list \<Rightarrow> 'w
      \<Rightarrow> DiffError + Operation list \<times> 'w"
and diffItems ::
    "'w Helpers \<Rightarrow> Options \<Rightarrow> ObjectIdentifier \<Rightarrow> PropertyName list \<Rightarrow> PropertyName \<Rightarrow> JsValue
      \<Rightarrow> JsValue \<Rightarrow> Operation list \<Rightarrow> 'w \<Rightarrow> DiffError + Operation list \<times> 'w"
and diffArrayItems ::
    "'w Helpers \<Rightarrow> Options \<Rightarrow> ObjectIdentifier \<Rightarrow> PropertyName list \<Rightarrow> JsValue list \<Rightarrow> nat
      \<Rightarrow> JsValue list \<Rightarrow> Operation list \<Rightarrow> 'w \<Rightarrow> DiffError + Operation list \<times> 'w"
and diffObjectEntries ::
    "'w Helpers \<Rightarrow> Options \<Rightarrow> ObjectIdentifier \<Rightarrow> PropertyName list \<Rightarrow> (string \<times> JsValue) list
      \<Rightarrow> (string \<times> JsValue) list \<Rightarrow> string list \<Rightarrow> Operation list \<Rightarrow> 'w
      \<Rightarrow> DiffError + string list \<times> Operation list \<times> 'w"
where
  "diffToPatches h options from to keyPath patches w =
     (case getOid from of
        Inl e \<Rightarrow> Inl e
      | Inr parent \<Rightarrow>
          (case from of
             JArray fi fs \<Rightarrow>
               (case to of
                  JArray ti ts \<Rightarrow>
                    (case diffArrayItems h options parent keyPath fs 0 ts patches w of
                       Inl e \<Rightarrow> Inl e
                     | Inr (patches1, w1) \<Rightarrow>
                         if int (length fs) - int (length ts) > 0 then
                           (let (patches2, w2) = emitDeletes h (drop (length ts) fs) patches1 w1
                            in Inr (push h parent
                                      (ListDelete (int (length ts)) (int (length fs) - int (length ts)))
                                      patches2 w2))
                         else Inr (patches1, w1))
                | _ \<Rightarrow> Inl CannotDiffArrayWithObject)
           | JObject fi fprops \<Rightarrow>
               (case to of
                  JArray ti ts \<Rightarrow> Inl CannotDiffArrayWithObject
                | JObject ti tprops \<Rightarrow>
                    (case diffObjectEntries h options parent keyPath fprops tprops
                            (map fst fprops) patches w of
                       Inl e \<Rightarrow> Inl e
                     | Inr (oldKeys, patches1, w1) \<Rightarrow>
                         if \<not> defaultUndefined options
                         then Inr (emitRemoves h parent oldKeys patches1 w1)
                         else Inr (patches1, w1))
                | JPrim p \<Rightarrow> Inr (patches, w))
           | JPrim p \<Rightarrow>
               (case to of
                  JArray ti ts \<Rightarrow> Inl CannotDiffArrayWithObject
                | _ \<Rightarrow> Inr (patches, w))))"
| "diffItems h options parent keyPath key v oldValue patches w =
     (case v of
        JPrim p \<Rightarrow>
          if \<not> (oldValue = JPrim p \<and> p \<noteq> PNumber NaN)
          then Inr (push h parent (OpSet key (Prim p)) patches w)
          else Inr (patches, w)
      | _ \<Rightarrow>
          (let oldValueOid = maybeGetOid oldValue;
               (valueOid, w1) = resolveValueOid h options parent key v oldValue w
           in if oldValue = JPrim PUndefined \<or> Some valueOid \<noteq> oldValueOid then
                (let (patches1, w2) = initialToPatches h (assignOid v valueOid) valueOid patches w1;
                     (patches2, w3) = push h parent (OpSet key (Ref (createRef h valueOid))) patches1 w2
                 in case oldValueOid of
                      None \<Rightarrow> Inr (patches2, w3)
                    | Some old \<Rightarrow> Inr (push h old OpDelete patches2 w3))
              else diffToPatches h options oldValue (assignOid v valueOid) (keyPath @ [key])
                     patches w1))"
| "diffArrayItems h options parent keyPath fs i [] patches w = Inr (patches, w)"
| "diffArrayItems h options parent keyPath fs i (v # rest) patches w =
     (case diffItems h options parent keyPath (Idx (int i)) v (readElement fs i) patches w of
        Inl e \<Rightarrow> Inl e
      | Inr (patches', w') \<Rightarrow>
          diffArrayItems h options parent keyPath fs (Suc i) rest patches' w')"
| "diffObjectEntries h options parent keyPath fprops [] oldKeys patches w =
     Inr (oldKeys, patches, w)"
| "diffObjectEntries h options parent keyPath fprops ((key, v) # rest) oldKeys patches w =
     (if v = JPrim PUndefined \<and> defaultUndefined options
      then diffObjectEntries h options parent keyPath fprops rest oldKeys patches w
      else if isOidKey h key
      then diffObjectEntries h options parent keyPath fprops rest (removeAll key oldKeys) patches w
      else
        (case diffItems h options parent keyPath (Key key) v (readProperty fprops key) patches w of
           Inl e \<Rightarrow> Inl e
         | Inr (patches', w') \<Rightarrow>
             diffObjectEntries h options parent keyPath fprops rest (removeAll key oldKeys)
               patches' w'))"
  by pat_completeness auto
termination
  apply (relation "measure (\<lambda>x. case x of
      Inl (Inl (h, options, from, to, keyPath, patches, w)) \<Rightarrow> 2 * jsize to + 1
    | Inl (Inr (h, options, parent, keyPath, key, v, oldValue, patches, w)) \<Rightarrow> 2 * jsize v + 2
    | Inr (Inl (h, options, parent, keyPath, fs, i, ts, patches, w)) \<Rightarrow>
        2 * sum_list (map (\<lambda>v. Suc (jsize v)) ts) + 1
    | Inr (Inr (h, options, parent, keyPath, fprops, tprops, oldKeys, patches, w)) \<Rightarrow>
        2 * sum_list (map (\<lambda>kv. Suc (jsize (snd kv))) tprops) + 1)")
  apply auto
  done

text \<open>
  Sample helpers for the examples, on the natural numbers as state: the clock and the
  ids count up. They are right for values whose sub-objects carry their OIDs already
  (nothing is left to assign).
\<close>

fun refTo :: "JsValue \<Rightarrow> PropertyValue" where
  "refTo (JPrim p) = Prim p"
| "refTo v = Ref (ObjectRef 0 (case maybeGetOid v of None \<Rightarrow> [] | Some i \<Rightarrow> i))"

fun sampleNormalize :: "JsValue \<Rightarrow> (ObjectIdentifier \<times> Base) list" where
  "sampleNormalize (JPrim p) = []"
| "sampleNormalize (JObject i props) =
     (case i of None \<Rightarrow> [] | Some root \<Rightarrow>
        [(root, Object (map_of (map (\<lambda>kv. (fst kv, refTo (snd kv))) props)))])
     @ concat (map (\<lambda>kv. sampleNormalize (snd kv)) props)"
| "sampleNormalize (JArray i xs) =
     (case i of None \<Rightarrow> [] | Some root \<Rightarrow> [(root, Array (map (\<lambda>v. Some (refTo v)) xs) Map.empty)])
     @ concat (map sampleNormalize xs)"

definition sampleHelpers :: "nat Helpers" where
  "sampleHelpers =
     \<lparr> getNow = (\<lambda>n. (showNat n, Suc n)),
       ensureOid = (\<lambda>v parent key n.
          case maybeGetOid v of
            Some i \<Rightarrow> (i, n)
          | None \<Rightarrow> (parent @ ''#'' @ showNat n, Suc n)),
       createRef = ObjectRef 0,
       isOidKey = (\<lambda>key. key = ''@@oid''),
       assignOidsToAllSubObjects = Pair,
       normalizeValue = sampleNormalize,
       removeOid = (\<lambda>shallow. shallow) \<rparr>"

definition noOptions :: Options where
  "noOptions = \<lparr> mergeUnknownObjects = False, defaultUndefined = False \<rparr>"


section \<open>Properties of the patch applier\<close>

lemma listPatch_nonarray:
  "\<not> isArray b \<Longrightarrow> listPatch b f = ([ListPatchOnNonArray b], Inr (ReturnBase b))"
  by (simp add: listPatch_def listCheck_def)

lemma listPatch_array:
  "listPatch (Array xs ps) f =
     ([], case f xs of Inl e \<Rightarrow> Inl e | Inr xs' \<Rightarrow> Inr (ReturnBase (Array xs' ps)))"
  by (simp add: listPatch_def listCheck_def)

text \<open>
  C1. The claim: \<^verbatim>\<open>applyOperations(base, ops)\<close> is the left fold of
  \<^verbatim>\<open>applyPatch\<close> over the operations. The source passes \<^verbatim>\<open>base\<close>, not
  \<^verbatim>\<open>cur\<close>, to every round. On an object base with the operations
  \<^verbatim>\<open>[delete, set k 2]\<close> the fold gives \<^verbatim>\<open>undefined\<close> (the object was deleted
  and stays so), while the source applies the \<^verbatim>\<open>set\<close> to the original object and
  returns it, \<^verbatim>\<open>{k: 2}\<close>.
\<close>

theorem applyOperations_passes_base:
  "applyOperations cloneDeep (Object [''k'' \<mapsto> Prim (PNumber (Finite 1))])
     [\<lparr>oid = ''todo/a:x'', timestamp = ''1'', data = OpDelete\<rparr>,
      \<lparr>oid = ''todo/a:x'', timestamp = ''2'',
       data = OpSet (Key ''k'') (Prim (PNumber (Finite 2)))\<rparr>]
     = Inr (Object [''k'' \<mapsto> Prim (PNumber (Finite 2))])
   \<and> foldPatches cloneDeep (Object [''k'' \<mapsto> Prim (PNumber (Finite 1))])
     [\<lparr>oid = ''todo/a:x'', timestamp = ''1'', data = OpDelete\<rparr>,
      \<lparr>oid = ''todo/a:x'', timestamp = ''2'',
       data = OpSet (Key ''k'') (Prim (PNumber (Finite 2)))\<rparr>]
     = Inr Undefined"
  by (simp add: applyOperations_def applyPatch_def applyPatchOutcome_def)

text \<open>
  The example of the claim does hold in the source, through the in-place update: after
  \<^verbatim>\<open>[set k v, remove k]\<close> on an object the key is absent.
\<close>

lemma applyOperations_set_then_remove:
  "applyOperations cloneDeep (Object m)
     [\<lparr>oid = o1, timestamp = t1, data = OpSet k v\<rparr>,
      \<lparr>oid = o2, timestamp = t2, data = OpRemove k\<rparr>]
     = Inr (Object (m(toPropertyKey k := None)))"
  by (simp add: applyOperations_def applyPatchOutcome_def)

text \<open>
  Where no round returns another value than the base (no \<^verbatim>\<open>delete\<close> and no
  \<^verbatim>\<open>initialize\<close> among the operations), the loop of the source and the fold agree.
\<close>

lemma applyOperationsLoop_is_fold:
  "list_all (\<lambda>op. data op \<noteq> OpDelete \<and> \<not> isInitialize (data op)) ops \<Longrightarrow>
   applyOperationsLoop cloneDeep b b ops = foldPatches cloneDeep b ops"
proof (induction ops arbitrary: b)
  case Nil
  show ?case by simp
next
  case (Cons op ops)
  have base_only: "map_sum id ReturnBase x \<noteq> Inr (ReturnNew v)" for x v
    by (cases x) auto
  have same: "snd (applyPatchOutcome cloneDeep b (data op)) = Inr (ReturnNew v) \<Longrightarrow> False" for v
    using Cons.prems base_only
    by (cases "data op")
      (auto simp: applyPatchOutcome_def listPatch_def listCheck_def Let_def
        split: if_splits Base.splits sum.splits)
  show ?case
  proof (cases "snd (applyPatchOutcome cloneDeep b (data op))")
    case (Inl e)
    then show ?thesis by (simp add: applyPatch_def)
  next
    case (Inr r)
    show ?thesis
    proof (cases r)
      case (ReturnBase b')
      with Inr Cons show ?thesis by (simp add: applyPatch_def)
    next
      case (ReturnNew v)
      with Inr same show ?thesis by blast
    qed
  qed
qed

text \<open>
  C3. The claim: \<^verbatim>\<open>list-move-by-ref\<close> finds the element by comparing ref ids. The
  source calls \<^verbatim>\<open>base.indexOf(patch.value)\<close>, which compares objects by identity.
  A patch whose ref has the id of the first element but is another object (as every
  patch read from storage or from the network is) is not found; \<^verbatim>\<open>splice(-1, 1)\<close>
  then takes the last element and puts it at the target index. Here the list is
  returned as it was, where the claim has \<^verbatim>\<open>[b, c, a]\<close>.
\<close>

theorem listMoveByRef_compares_identity:
  "applyPatch cloneDeep
     (Array [Some (Ref (ObjectRef 1 ''a'')), Some (Ref (ObjectRef 2 ''b'')),
             Some (Ref (ObjectRef 3 ''c''))] Map.empty)
     (ListMoveByRef (ObjectRef 4 ''a'') 2)
   = Inr (Array [Some (Ref (ObjectRef 1 ''a'')), Some (Ref (ObjectRef 2 ''b'')),
                 Some (Ref (ObjectRef 3 ''c''))] Map.empty)"
  by (simp add: applyPatch_def applyPatchOutcome_def listPatch_array listMoveByRef_def
      slotEquals_def splice_def firstOf_def readSlot_def)

text \<open>With the very object of the list in the patch, the element does move.\<close>

lemma listMoveByRef_same_object:
  "applyPatch cloneDeep
     (Array [Some (Ref (ObjectRef 1 ''a'')), Some (Ref (ObjectRef 2 ''b'')),
             Some (Ref (ObjectRef 3 ''c''))] Map.empty)
     (ListMoveByRef (ObjectRef 1 ''a'') 2)
   = Inr (Array [Some (Ref (ObjectRef 2 ''b'')), Some (Ref (ObjectRef 3 ''c'')),
                 Some (Ref (ObjectRef 1 ''a''))] Map.empty)"
  by (simp add: applyPatch_def applyPatchOutcome_def listPatch_array listMoveByRef_def
      slotEquals_def splice_def firstOf_def readSlot_def)

text \<open>
  C5. A \<^verbatim>\<open>delete\<close> patch returns an absent value for every base
  (\<^verbatim>\<open>undefined\<close>, or the base itself where that was \<^verbatim>\<open>null\<close> already), and a
  patch that is not \<^verbatim>\<open>initialize\<close> returns an absent base as it is.
\<close>

theorem applyPatch_delete_and_absent:
  "applyPatch cloneDeep base OpDelete = Inr (if base = Null then Null else Undefined) \<and>
   absent (if base = Null then Null else Undefined) \<and>
   (absent base \<and> \<not> isInitialize patch \<longrightarrow> applyPatch cloneDeep base patch = Inr base)"
  by (auto simp: applyPatch_def applyPatchOutcome_def absent_def)

theorem applyPatch_delete_and_absent_witness:
  "absent Undefined \<and> \<not> isInitialize (OpSet (Key ''title'') (Prim (PString ''hi''))) \<and>
   applyPatch (cloneDeepAt 100) Undefined (OpSet (Key ''title'') (Prim (PString ''hi'')))
     = Inr Undefined \<and>
   applyPatch (cloneDeepAt 100) Undefined OpDelete = Inr Undefined"
  using applyPatch_delete_and_absent
    [of "cloneDeepAt 100" Undefined "OpSet (Key ''title'') (Prim (PString ''hi''))"]
  by (simp add: absent_def)

text \<open>
  C6, as amended. For a base that is not an array, a list patch returns the base
  itself, unchanged, and throws nothing. It logs the error when the base is an object;
  an absent base (\<^verbatim>\<open>undefined\<close> or \<^verbatim>\<open>null\<close>) is returned by the guard at the top
  of \<^verbatim>\<open>applyPatch\<close>, before any list check, and nothing is logged.
\<close>

theorem listPatch_on_nonarray:
  "\<not> isArray base \<Longrightarrow> listTargeted patch \<Longrightarrow>
   snd (applyPatchOutcome cloneDeep base patch) = Inr (ReturnBase base) \<and>
   applyPatch cloneDeep base patch = Inr base \<and>
   applyPatchConsole cloneDeep base patch =
     (if absent base then [] else [ListPatchOnNonArray base])"
  by (cases patch)
    (auto simp: applyPatch_def applyPatchConsole_def applyPatchOutcome_def
      listPatch_nonarray absent_def)

theorem listPatch_on_nonarray_witness:
  "\<not> isArray (Object [''title'' \<mapsto> Prim (PString ''hi'')]) \<and>
   listTargeted (ListPush (Prim (PNumber (Finite 1)))) \<and>
   applyPatch (cloneDeepAt 100) (Object [''title'' \<mapsto> Prim (PString ''hi'')])
     (ListPush (Prim (PNumber (Finite 1))))
     = Inr (Object [''title'' \<mapsto> Prim (PString ''hi'')]) \<and>
   applyPatchConsole (cloneDeepAt 100) (Object [''title'' \<mapsto> Prim (PString ''hi'')])
     (ListPush (Prim (PNumber (Finite 1))))
     = [ListPatchOnNonArray (Object [''title'' \<mapsto> Prim (PString ''hi'')])]"
  using listPatch_on_nonarray
    [of "Object [''title'' \<mapsto> Prim (PString ''hi'')]" "ListPush (Prim (PNumber (Finite 1)))"
      "cloneDeepAt 100"]
  by (simp add: absent_def)

text \<open>
  C6 as stated fails: a list patch on the base \<^verbatim>\<open>undefined\<close>, which is not an
  array, logs nothing.
\<close>

theorem listPatch_on_undefined_logs_nothing:
  "\<not> isArray Undefined \<and> listTargeted (ListPush (Prim (PNumber (Finite 1)))) \<and>
   applyPatchConsole (cloneDeepAt 100) Undefined (ListPush (Prim (PNumber (Finite 1)))) = []"
  by (simp add: applyPatchConsole_def applyPatchOutcome_def)

text \<open>
  C9. The claim: \<^verbatim>\<open>list-remove\<close> of a ref removes the elements with that id from
  every array base. The predicate of the source reads \<^verbatim>\<open>item.id\<close> of every
  element it visits, and an array may hold \<^verbatim>\<open>null\<close> (a \<^verbatim>\<open>PropertyValue\<close>):
  on \<^verbatim>\<open>[null, ref a]\<close> the search throws a TypeError at the first element, where
  the claim has the result \<^verbatim>\<open>[null]\<close>.
\<close>

theorem listRemove_ref_throws_on_null:
  "applyPatch cloneDeep
     (Array [Some (Prim PNull), Some (Ref (ObjectRef 1 ''a''))] Map.empty)
     (ListRemove (Ref (ObjectRef 2 ''a'')) None)
   = Inl TypeError"
  by (simp add: applyPatch_def applyPatchOutcome_def listPatch_array listRemoveLoop.simps
      locate_def readSlot_def)

text \<open>
  What \<^verbatim>\<open>list-remove\<close> does where it does not throw. A value that is not a ref
  is matched by strict equality: without \<^verbatim>\<open>only\<close> every match is removed, with
  \<^verbatim>\<open>only\<close> the first or the last one, and a list with no match stays as it is.
  A ref is matched by id, on a list none of whose slots reads \<^verbatim>\<open>undefined\<close> or
  \<^verbatim>\<open>null\<close>.
\<close>

lemma indexOf_None: "indexOf xs v = None \<Longrightarrow> filter (\<lambda>s. \<not> slotEquals v s) xs = xs"
  by (induction xs) (auto split: if_splits)

lemma indexOf_Some:
  "indexOf xs v = Some i \<Longrightarrow>
   i < length xs \<and> slotEquals v (xs ! i) \<and> list_all (\<lambda>s. \<not> slotEquals v s) (take i xs)"
  by (induction xs arbitrary: i) (auto split: if_splits)

lemma filter_remove_hit:
  "i < length xs \<Longrightarrow> \<not> P (xs ! i) \<Longrightarrow> filter P (take i xs @ drop (Suc i) xs) = filter P xs"
proof -
  assume a: "i < length xs" "\<not> P (xs ! i)"
  have "xs = take i xs @ xs ! i # drop (Suc i) xs"
    using a(1) by (simp add: id_take_nth_drop)
  then have "filter P xs = filter P (take i xs @ xs ! i # drop (Suc i) xs)" by simp
  also have "\<dots> = filter P (take i xs @ drop (Suc i) xs)" using a(2) by simp
  finally show ?thesis by simp
qed

lemma listRemove_all_primitive:
  "listRemoveLoop xs (Prim p) None = Inr (filter (\<lambda>s. \<not> slotEquals (Prim p) s) xs)"
proof (induction xs "Prim p" "None :: Only option" rule: listRemoveLoop.induct)
  case (1 xs)
  show ?case
  proof (cases "indexOf xs (Prim p)")
    case None
    then show ?thesis
      by (subst listRemoveLoop.simps) (simp add: locate_def indexOf_None)
  next
    case (Some i)
    from indexOf_Some[OF Some] have i: "i < length xs" and hit: "slotEquals (Prim p) (xs ! i)"
      by auto
    have loc: "locate xs (Prim p) None = Inr (Some i)" using Some by (simp add: locate_def)
    have "listRemoveLoop xs (Prim p) None
        = listRemoveLoop (fst (splice xs (int i) 1 [])) (Prim p) None"
      by (subst listRemoveLoop.simps) (simp add: loc)
    also have "\<dots> = Inr (filter (\<lambda>s. \<not> slotEquals (Prim p) s) (fst (splice xs (int i) 1 [])))"
      using "1.hyps"[OF loc] by simp
    also have "\<dots> = Inr (filter (\<lambda>s. \<not> slotEquals (Prim p) s) xs)"
      using filter_remove_hit[of i xs "\<lambda>s. \<not> slotEquals (Prim p) s"] i hit
      by (simp add: splice_remove_one)
    finally show ?thesis .
  qed
qed

lemma listRemove_first_primitive:
  "listRemoveLoop xs (Prim p) (Some First) =
     Inr (case indexOf xs (Prim p) of None \<Rightarrow> xs | Some i \<Rightarrow> take i xs @ drop (Suc i) xs)"
  by (subst listRemoveLoop.simps)
    (auto simp: locate_def splice_remove_one split: option.splits dest: indexOf_less)

lemma listRemove_last_primitive:
  "listRemoveLoop xs (Prim p) (Some Last) =
     Inr (case lastIndexOf xs (Prim p) of None \<Rightarrow> xs | Some i \<Rightarrow> take i xs @ drop (Suc i) xs)"
  by (subst listRemoveLoop.simps)
    (auto simp: locate_def splice_remove_one split: option.splits dest: lastIndexOf_less)

lemma sameId_primitive:
  "p \<noteq> PUndefined \<Longrightarrow> p \<noteq> PNull \<Longrightarrow> sameId r (Prim p) = Inr False"
  by (cases p) auto

lemma sameId_total:
  assumes "\<not> nullish s"
  shows "sameId r (readSlot s) = Inr (hasId r s)"
proof (cases s)
  case None
  with assms show ?thesis by (simp add: nullish_def readSlot_def)
next
  case (Some v)
  show ?thesis
  proof (cases v)
    case (Prim p)
    with Some assms show ?thesis
      by (cases p) (simp_all add: nullish_def hasId_def readSlot_def)
  next
    case (Ref item)
    with Some show ?thesis by (simp add: hasId_def readSlot_def)
  qed
qed

lemma findIndex_sameId:
  "list_all (\<lambda>s. \<not> nullish s) xs \<Longrightarrow>
   (case findIndex xs (sameId r) of
      Inl e \<Rightarrow> False
    | Inr None \<Rightarrow> filter (\<lambda>s. \<not> hasId r s) xs = xs
    | Inr (Some i) \<Rightarrow> i < length xs \<and> hasId r (xs ! i))"
proof (induction xs)
  case Nil
  show ?case by simp
next
  case (Cons x xs)
  then have x: "sameId r (readSlot x) = Inr (hasId r x)" and rest: "list_all (\<lambda>s. \<not> nullish s) xs"
    by (auto simp: sameId_total)
  from Cons.IH[OF rest] show ?case
    by (auto simp: x split: sum.splits option.splits)
qed

lemma listRemove_all_ref:
  "list_all (\<lambda>s. \<not> nullish s) xs \<Longrightarrow>
   listRemoveLoop xs (Ref r) None = Inr (filter (\<lambda>s. \<not> hasId r s) xs)"
proof (induction xs "Ref r" "None :: Only option" rule: listRemoveLoop.induct)
  case (1 xs)
  note found = findIndex_sameId[OF "1.prems", of r]
  show ?case
  proof (cases "findIndex xs (sameId r)")
    case (Inl e)
    with found show ?thesis by simp
  next
    case (Inr found_at)
    show ?thesis
    proof (cases found_at)
      case None
      with Inr found show ?thesis
        by (subst listRemoveLoop.simps) (simp add: locate_def)
    next
      case (Some i)
      with Inr found have i: "i < length xs" and hit: "hasId r (xs ! i)" by auto
      have loc: "locate xs (Ref r) None = Inr (Some i)" using Inr Some by (simp add: locate_def)
      have rest: "list_all (\<lambda>s. \<not> nullish s) (fst (splice xs (int i) 1 []))"
        using "1.prems" i
        by (auto simp: splice_remove_one list_all_iff dest: in_set_takeD in_set_dropD)
      have "listRemoveLoop xs (Ref r) None
          = listRemoveLoop (fst (splice xs (int i) 1 [])) (Ref r) None"
        by (subst listRemoveLoop.simps) (simp add: loc)
      also have "\<dots> = Inr (filter (\<lambda>s. \<not> hasId r s) (fst (splice xs (int i) 1 [])))"
        using "1.hyps" loc rest by auto
      also have "\<dots> = Inr (filter (\<lambda>s. \<not> hasId r s) xs)"
        using filter_remove_hit[of i xs "\<lambda>s. \<not> hasId r s"] i hit
        by (simp add: splice_remove_one)
      finally show ?thesis .
    qed
  qed
qed


lemma applyPatch_listRemove_all_primitive:
  "applyPatch cloneDeep (Array xs ps) (ListRemove (Prim p) None)
     = Inr (Array (filter (\<lambda>s. \<not> slotEquals (Prim p) s) xs) ps)"
  by (simp add: applyPatch_def applyPatchOutcome_def listPatch_array listRemove_all_primitive)

lemma applyPatch_listRemove_all_ref:
  "list_all (\<lambda>s. \<not> nullish s) xs \<Longrightarrow>
   applyPatch cloneDeep (Array xs ps) (ListRemove (Ref r) None)
     = Inr (Array (filter (\<lambda>s. \<not> hasId r s) xs) ps)"
  by (simp add: applyPatch_def applyPatchOutcome_def listPatch_array listRemove_all_ref)

text \<open>A \<^verbatim>\<open>list-insert\<close> with a falsy \<^verbatim>\<open>value\<close> and no \<^verbatim>\<open>values\<close> throws.\<close>

lemma listInsert_falsy:
  "\<not> truthy v \<Longrightarrow>
   applyPatch cloneDeep (Array xs ps) (ListInsert index (Some v) None) = Inl MalformedListInsert"
  by (simp add: applyPatch_def applyPatchOutcome_def listPatch_array listInsert_def)

text \<open>
  C10. On an array base, a \<^verbatim>\<open>list-insert\<close> whose \<^verbatim>\<open>value\<close> is \<^verbatim>\<open>0\<close>,
  \<^verbatim>\<open>false\<close>, the empty string or \<^verbatim>\<open>null\<close>, with no \<^verbatim>\<open>values\<close>, throws the
  error of a malformed list insert; nothing is inserted.
\<close>

theorem listInsert_falsy_scalar_throws:
  "applyPatch cloneDeep (Array xs ps) (ListInsert index (Some (Prim (PNumber (Finite 0)))) None)
     = Inl MalformedListInsert \<and>
   applyPatch cloneDeep (Array xs ps) (ListInsert index (Some (Prim (PBoolean False))) None)
     = Inl MalformedListInsert \<and>
   applyPatch cloneDeep (Array xs ps) (ListInsert index (Some (Prim (PString ''''))) None)
     = Inl MalformedListInsert \<and>
   applyPatch cloneDeep (Array xs ps) (ListInsert index (Some (Prim PNull)) None)
     = Inl MalformedListInsert"
  by (simp add: listInsert_falsy)

text \<open>A truthy value is inserted at the index.\<close>

lemma listInsert_truthy:
  "truthy v \<Longrightarrow>
   applyPatch cloneDeep (Array xs ps) (ListInsert index (Some v) vs)
     = Inr (Array (fst (splice xs index 0 [Some v])) ps)"
  by (simp add: applyPatch_def applyPatchOutcome_def listPatch_array listInsert_def)

section \<open>Properties of the metadata facade\<close>

text \<open>Without an override \<^verbatim>\<open>updateSchema\<close> never fails; with the stored version as
  override it fails on every same-version schema of other content.\<close>

lemma updateSchema_no_override:
  "updateSchema stringify stored schema None = Inr (Some schema)"
  by (simp add: updateSchema_def split: option.splits)

lemma updateSchema_override:
  "version storedSchema = version schema \<Longrightarrow> stringify storedSchema \<noteq> stringify schema \<Longrightarrow>
   updateSchema stringify (Some storedSchema) schema (Some (version storedSchema)) = Inl SchemaMismatch"
  by (simp add: updateSchema_def)

text \<open>
  C2. The claim: a schema of the stored version with other content is refused, unless
  \<^verbatim>\<open>overrideConflict\<close> is that version. The source has the test the other way
  round: it throws only when \<^verbatim>\<open>overrideConflict === storedSchema.version\<close>.
  With the stored schema \<^verbatim>\<open>{version: 1, shape A}\<close>, the new schema
  \<^verbatim>\<open>{version: 1, shape B}\<close> and no override, nothing is thrown and the new schema
  is stored.
\<close>

theorem updateSchema_accepts_drift: "updateSchema stringify (Some \<lparr>version = 1, collections = shapeA\<rparr>)
     \<lparr>version = 1, collections = shapeB\<rparr> None = Inr (Some \<lparr>version = 1, collections = shapeB\<rparr>)"
  by (simp add: updateSchema_def)

lemma rebaseScan_rows:
  "rebaseScan cloneDeep baseline scanned current rows = Inr (current', rows') \<Longrightarrow>
   rows' = filter (\<lambda>r. (oid r, timestamp r) \<notin> set (map (\<lambda>p. (oid p, timestamp p)) scanned)) rows"
proof (induction scanned arbitrary: current rows)
  case Nil
  then show ?case by simp
next
  case (Cons patch scanned)
  from Cons.prems obtain cur1 where
    step: "rebaseScan cloneDeep baseline scanned cur1 (storeDelete (oid patch, timestamp patch) rows)
            = Inr (current', rows')"
    by (auto split: sum.splits)
  from Cons.IH[OF step] show ?case
    by (auto simp: storeDelete_def intro: filter_cong)
qed

lemma rebaseScan_fold:
  "rebaseScan cloneDeep baseline scanned current rows = Inr (current', rows') \<Longrightarrow>
   foldPatches cloneDeep current
     (filter (\<lambda>p. baseline = None \<or> timestamp p > baselineTimestamp (the baseline)) scanned)
     = Inr current'"
proof (induction scanned arbitrary: current rows)
  case Nil
  then show ?case by simp
next
  case (Cons patch scanned)
  show ?case
  proof (cases "baseline = None \<or> timestamp patch > baselineTimestamp (the baseline)")
    case True
    with Cons.prems obtain cur1 where
      a: "applyPatch cloneDeep current (data patch) = Inr cur1" and
      step: "rebaseScan cloneDeep baseline scanned cur1 (storeDelete (oid patch, timestamp patch) rows)
            = Inr (current', rows')"
      by (auto split: sum.splits)
    from Cons.IH[OF step] a True show ?thesis by auto
  next
    case False
    with Cons.prems have
      step: "rebaseScan cloneDeep baseline scanned current (storeDelete (oid patch, timestamp patch) rows)
            = Inr (current', rows')"
      by (auto split: sum.splits)
    from Cons.IH[OF step] False show ?thesis by auto
  qed
qed

lemma scanned_keys:
  "set (map (\<lambda>p. (oid p, timestamp p)) (iterateOverAllOperationsForEntity rows entity T))
   = {(entity, t) | t. t \<le> T \<and> (\<exists>r \<in> set rows. oid r = entity \<and> timestamp r = t)}"
  by (auto simp: iterateOverAllOperationsForEntity_def)

lemma scanned_sorted:
  "sorted (map timestamp (iterateOverAllOperationsForEntity rows entity T))"
  by (simp add: iterateOverAllOperationsForEntity_def)

text \<open>
  C4. When \<^verbatim>\<open>rebase(oid, T)\<close> completes: the rows of that OID with a timestamp
  up to \<open>T\<close> are gone from the operations store and every other row is kept; the
  scan visited them in timestamp order; the snapshot is the fold of
  \<^verbatim>\<open>applyPatch\<close>, from the prior baseline's snapshot, over the scanned patches
  strictly newer than the prior baseline (all of them when there was none); and the
  baselines store holds \<open>(oid, snapshot, T)\<close> when that snapshot is present, no
  baseline for the OID otherwise.
\<close>

theorem rebase_folds_and_deletes:
  "rebase cloneDeep assignOidBase db entity T = Inr (db', newBaseline) \<Longrightarrow>
   operations db' = filter (\<lambda>r. \<not> (oid r = entity \<and> timestamp r \<le> T)) (operations db) \<and>
   (\<forall>r \<in> set (operations db'). \<not> (oid r = entity \<and> timestamp r \<le> T)) \<and>
   sorted (map timestamp (iterateOverAllOperationsForEntity (operations db) entity T)) \<and>
   (\<exists>current.
      foldPatches cloneDeep
        (case baselines db entity of
           None \<Rightarrow> Undefined
         | Some b \<Rightarrow> if absent (snapshot b) then Undefined else snapshot b)
        (filter (\<lambda>p. case baselines db entity of
                        None \<Rightarrow> True
                      | Some b \<Rightarrow> timestamp p > baselineTimestamp b)
           (iterateOverAllOperationsForEntity (operations db) entity T))
        = Inr current \<and>
      newBaseline = \<lparr> baselineOid = entity,
                      snapshot = (if absent current then current else assignOidBase current entity),
                      baselineTimestamp = T \<rparr> \<and>
      baselines db' = (if absent current then (baselines db)(entity := None)
                       else (baselines db)(entity \<mapsto> newBaseline)))"
proof -
  assume r: "rebase cloneDeep assignOidBase db entity T = Inr (db', newBaseline)"
  let ?bl = "baselines db entity"
  let ?start = "case ?bl of None \<Rightarrow> Undefined
         | Some b \<Rightarrow> if absent (snapshot b) then Undefined else snapshot b"
  let ?scanned = "iterateOverAllOperationsForEntity (operations db) entity T"
  from r obtain current rows where
    scan: "rebaseScan cloneDeep ?bl ?scanned ?start (operations db) = Inr (current, rows)" and
    db': "db' = \<lparr> operations = rows,
                  baselines = (if absent current then (baselines db)(entity := None)
                     else (baselines db)(entity \<mapsto> newBaseline)) \<rparr>" and
    nb: "newBaseline = \<lparr> baselineOid = entity,
                      snapshot = (if absent current then current else assignOidBase current entity),
                      baselineTimestamp = T \<rparr>"
    by (auto simp: rebase_def Let_def split: sum.splits prod.splits)
  have rows: "rows = filter (\<lambda>r. \<not> (oid r = entity \<and> timestamp r \<le> T)) (operations db)"
    unfolding rebaseScan_rows[OF scan] scanned_keys
    by (rule filter_cong) auto
  have same_filter: "(\<lambda>p. ?bl = None \<or> timestamp p > baselineTimestamp (the ?bl))
     = (\<lambda>p. case ?bl of None \<Rightarrow> True | Some b \<Rightarrow> timestamp p > baselineTimestamp b)"
    by (cases "baselines db entity") auto
  have fold: "foldPatches cloneDeep ?start
        (filter (\<lambda>p. case ?bl of None \<Rightarrow> True | Some b \<Rightarrow> timestamp p > baselineTimestamp b) ?scanned)
        = Inr current"
    using rebaseScan_fold[OF scan] unfolding same_filter .
  have ops: "operations db' = rows" using db' by simp
  have bls: "baselines db' = (if absent current then (baselines db)(entity := None)
                     else (baselines db)(entity \<mapsto> newBaseline))" using db' by simp
  show ?thesis
    using rows fold nb ops bls scanned_sorted by auto
qed



lemma example_scan:
  "iterateOverAllOperationsForEntity (operations exampleDb) ''todo/a:x'' ''3'' =
   [\<lparr>oid = ''todo/a:x'', timestamp = ''1'',
           data = OpSet (Key ''title'') (Prim (PString ''stale'')), isLocal = True\<rparr>,
    \<lparr>oid = ''todo/a:x'', timestamp = ''2'',
           data = OpSet (Key ''done'') (Prim (PBoolean True)), isLocal = True\<rparr>,
    \<lparr>oid = ''todo/a:x'', timestamp = ''3'',
           data = OpSet (Key ''count'') (Prim (PNumber (Finite 3))), isLocal = True\<rparr>]"
  by (simp add: iterateOverAllOperationsForEntity_def exampleDb_def less_char_def less_eq_char_def)

lemma example_rebase:
  "rebase (cloneDeepAt 100) assignOidKey exampleDb ''todo/a:x'' ''3''
     = Inr (exampleDbRebased, exampleBaseline)"
  unfolding rebase_def example_scan
  by (simp add: exampleDb_def exampleDbRebased_def exampleBaseline_def absent_def storeDelete_def
      applyPatch_def applyPatchOutcome_def less_char_def less_eq_char_def Let_def)

theorem rebase_folds_and_deletes_witness:
  "rebase (cloneDeepAt 100) assignOidKey exampleDb ''todo/a:x'' ''3''
     = Inr (exampleDbRebased, exampleBaseline) \<and>
   operations exampleDbRebased
     = filter (\<lambda>r. \<not> (oid r = ''todo/a:x'' \<and> timestamp r \<le> ''3'')) (operations exampleDb) \<and>
   baselines exampleDbRebased ''todo/a:x'' = Some exampleBaseline"
  using rebase_folds_and_deletes [OF example_rebase] example_rebase
  by (simp add: exampleDbRebased_def)

section \<open>Properties of the diff engine\<close>

lemma push_pushAll: "push h i d patches w = pushAll h [(i, d)] patches w"
  by (simp add: push_def split: prod.splits)

lemma pushAll_append:
  "pushAll h (xs @ ys) patches w =
     (case pushAll h xs patches w of (patches', w') \<Rightarrow> pushAll h ys patches' w')"
  by (induction xs arbitrary: patches w) (auto split: prod.splits)

text \<open>\<open>pushAll\<close> appends one operation per item, with the item's target and patch.\<close>

lemma pushAll_appends:
  "\<exists>news. fst (pushAll h items patches w) = patches @ news \<and>
          map (\<lambda>op. (oid op, data op)) news = items"
proof (induction items arbitrary: patches w)
  case Nil
  show ?case by simp
next
  case (Cons item items)
  obtain i d where item: "item = (i, d)" by (cases item)
  obtain now w' where now: "getNow h w = (now, w')" by (cases "getNow h w")
  from Cons.IH[of "patches @ [\<lparr>oid = i, timestamp = now, data = d\<rparr>]" w']
  obtain news where
    "fst (pushAll h items (patches @ [\<lparr>oid = i, timestamp = now, data = d\<rparr>]) w')
       = (patches @ [\<lparr>oid = i, timestamp = now, data = d\<rparr>]) @ news"
    "map (\<lambda>op. (oid op, data op)) news = items"
    by blast
  then show ?case
    using item now
    by (intro exI[of _ "\<lparr>oid = i, timestamp = now, data = d\<rparr> # news"]) simp
qed

lemma emitInitialize_pushAll:
  "emitInitialize h entries patches w =
     pushAll h (map (\<lambda>(key, v). (key, OpInitialize (removeOid h v))) entries) patches w"
  by (induction entries arbitrary: patches w) (auto simp: push_def split: prod.splits)

lemma emitDeletes_pushAll:
  "list_all (\<lambda>v. maybeGetOid v \<noteq> Some []) vs \<Longrightarrow>
   emitDeletes h vs patches w =
     pushAll h (map (\<lambda>i. (i, OpDelete)) (List.map_filter maybeGetOid vs)) patches w"
proof (induction vs arbitrary: patches w)
  case Nil
  show ?case by (simp add: List.map_filter_simps)
next
  case (Cons v vs)
  then show ?case
    by (cases "maybeGetOid v")
      (auto simp: List.map_filter_simps truthyOid_def push_def split: prod.splits)
qed

text \<open>
  C7. Diffing an array (carrying the OID \<open>parent\<close>) against a shorter one: once
  the slots \<open>0 .. length to - 1\<close> are diffed (giving \<open>patches1\<close>), the source
  pushes one \<^verbatim>\<open>delete\<close> for every dropped element that carries an OID, in order,
  and then one \<^verbatim>\<open>list-delete\<close> at index \<open>length to\<close> with count
  \<open>length from - length to\<close>, and nothing else. OIDs are taken to be non-empty
  strings, as their grammar has them.
\<close>

theorem diffToPatches_array_shrink:
  assumes longer: "length ts < length fs"
    and wf: "list_all (\<lambda>v. maybeGetOid v \<noteq> Some []) (drop (length ts) fs)"
    and items: "diffArrayItems h options parent keyPath fs 0 ts patches w = Inr (patches1, w1)"
  shows "let emitted =
           map (\<lambda>i. (i, OpDelete)) (List.map_filter maybeGetOid (drop (length ts) fs))
           @ [(parent, ListDelete (int (length ts)) (int (length fs) - int (length ts)))]
         in diffToPatches h options (JArray (Some parent) fs) (JArray ti ts) keyPath patches w
              = Inr (pushAll h emitted patches1 w1) \<and>
            (\<exists>news. fst (pushAll h emitted patches1 w1) = patches1 @ news \<and>
                    map (\<lambda>op. (oid op, data op)) news = emitted)"
proof -
  have run: "diffToPatches h options (JArray (Some parent) fs) (JArray ti ts) keyPath patches w
      = Inr (pushAll h
               (map (\<lambda>i. (i, OpDelete)) (List.map_filter maybeGetOid (drop (length ts) fs))
                @ [(parent, ListDelete (int (length ts)) (int (length fs) - int (length ts)))])
               patches1 w1)"
    using longer items
    by (simp add: getOid_def emitDeletes_pushAll[OF wf] push_pushAll pushAll_append
        split: prod.splits)
  show ?thesis
    unfolding Let_def run
    by (simp add: pushAll_appends)
qed

lemma example_array_items:
  "diffArrayItems sampleHelpers noOptions ''todo/a:x#tags'' []
     [JPrim (PNumber (Finite 1)), JPrim (PNumber (Finite 2)), JPrim (PNumber (Finite 3))] 0
     [JPrim (PNumber (Finite 1)), JPrim (PNumber (Finite 2))] [] 0 = Inr ([], 0)"
  by (simp add: readElement_def)

text \<open>The example of the claim: \<^verbatim>\<open>[1, 2, 3]\<close> against \<^verbatim>\<open>[1, 2]\<close>.\<close>

theorem diffToPatches_array_shrink_witness:
  "length [JPrim (PNumber (Finite 1)), JPrim (PNumber (Finite 2))]
     < length [JPrim (PNumber (Finite 1)), JPrim (PNumber (Finite 2)), JPrim (PNumber (Finite 3))] \<and>
   diffToPatches sampleHelpers noOptions
     (JArray (Some ''todo/a:x#tags'')
        [JPrim (PNumber (Finite 1)), JPrim (PNumber (Finite 2)), JPrim (PNumber (Finite 3))])
     (JArray None [JPrim (PNumber (Finite 1)), JPrim (PNumber (Finite 2))]) [] [] 0
   = Inr ([\<lparr>oid = ''todo/a:x#tags'', timestamp = ''0'', data = ListDelete 2 1\<rparr>], 1)"
  using diffToPatches_array_shrink
    [of "[JPrim (PNumber (Finite 1)), JPrim (PNumber (Finite 2))]"
      "[JPrim (PNumber (Finite 1)), JPrim (PNumber (Finite 2)), JPrim (PNumber (Finite 3))]"
      sampleHelpers noOptions "''todo/a:x#tags''" "[]" "[]" 0 "[]" 0 None,
      OF _ _ example_array_items]
  by (simp add: List.map_filter_simps sampleHelpers_def showNat.simps digitChar_def Let_def)

text \<open>An array that drops an object: its \<^verbatim>\<open>delete\<close>, then the \<^verbatim>\<open>list-delete\<close>.\<close>

lemma example_drop_object:
  "diffToPatches sampleHelpers noOptions
     (JArray (Some ''todo/a:x#items'')
        [JObject (Some ''todo/a:x#1'') [(''name'', JPrim (PString ''a''))],
         JObject (Some ''todo/a:x#2'') [(''name'', JPrim (PString ''b''))]])
     (JArray (Some ''todo/a:x#items'')
        [JObject (Some ''todo/a:x#1'') [(''name'', JPrim (PString ''a''))]]) [] [] 0
   = Inr ([\<lparr>oid = ''todo/a:x#2'', timestamp = ''0'', data = OpDelete\<rparr>,
           \<lparr>oid = ''todo/a:x#items'', timestamp = ''1'', data = ListDelete 1 1\<rparr>], 2)"
  by (simp add: getOid_def readElement_def readProperty_def resolveValueOid_def noOptions_def
      sampleHelpers_def truthyOid_def push_def showNat.simps digitChar_def)

text \<open>
  C8. A slot whose new value is an object or array, with a resolved OID other than the
  old slot's (or with no old value): the source pushes the \<^verbatim>\<open>initialize\<close>
  operations of \<^verbatim>\<open>initialToPatches\<close>, one per entry of the normalized new value,
  then one \<^verbatim>\<open>set\<close> on the parent with a ref to the new OID, then one
  \<^verbatim>\<open>delete\<close> of the old OID if the old value carried one, and nothing else.
\<close>

theorem diffItems_replaces_identity:
  assumes obj: "isObject v"
    and resolved: "resolveValueOid h options parent key v oldValue w = (valueOid, w1)"
    and differs: "oldValue = JPrim PUndefined \<or> maybeGetOid oldValue \<noteq> Some valueOid"
    and stamped: "assignOidsToAllSubObjects h (assignOid v valueOid) w1 = (stamped, w2)"
  shows "let emitted =
           map (\<lambda>(i, shallow). (i, OpInitialize (removeOid h shallow))) (normalizeValue h stamped)
           @ [(parent, OpSet key (Ref (createRef h valueOid)))]
           @ (case maybeGetOid oldValue of None \<Rightarrow> [] | Some old \<Rightarrow> [(old, OpDelete)])
         in diffItems h options parent keyPath key v oldValue patches w
              = Inr (pushAll h emitted patches w2) \<and>
            (\<exists>news. fst (pushAll h emitted patches w2) = patches @ news \<and>
                    map (\<lambda>op. (oid op, data op)) news = emitted)"
proof -
  have neq: "oldValue = JPrim PUndefined \<or> Some valueOid \<noteq> maybeGetOid oldValue"
    using differs by auto
  have run: "diffItems h options parent keyPath key v oldValue patches w
      = Inr (pushAll h
               (map (\<lambda>(i, shallow). (i, OpInitialize (removeOid h shallow)))
                  (normalizeValue h stamped)
                @ [(parent, OpSet key (Ref (createRef h valueOid)))]
                @ (case maybeGetOid oldValue of None \<Rightarrow> [] | Some old \<Rightarrow> [(old, OpDelete)]))
               patches w2)"
  proof (cases v)
    case (JPrim p)
    with obj show ?thesis by simp
  next
    case (JObject i props)
    show ?thesis
      using neq resolved stamped
      unfolding JObject
      by (cases "maybeGetOid oldValue")
        (simp_all add: initialToPatches_def emitInitialize_pushAll push_pushAll pushAll_append
          split: prod.splits)
  next
    case (JArray i xs)
    show ?thesis
      using neq resolved stamped
      unfolding JArray
      by (cases "maybeGetOid oldValue")
        (simp_all add: initialToPatches_def emitInitialize_pushAll push_pushAll pushAll_append
          split: prod.splits)
  qed
  show ?thesis
    unfolding Let_def run
    by (simp add: pushAll_appends)
qed

text \<open>
  The third scenario of the specification: \<^verbatim>\<open>sub\<close> of the document
  \<^verbatim>\<open>todo/a:x\<close> is replaced by a new object with no OID.
\<close>

theorem diffItems_replaces_identity_witness:
  "isObject (JObject None [(''v'', JPrim (PNumber (Finite 2)))]) \<and>
   diffItems sampleHelpers noOptions ''todo/a:x'' [] (Key ''sub'')
     (JObject None [(''v'', JPrim (PNumber (Finite 2)))])
     (JObject (Some ''todo/a:x#sub'') [(''v'', JPrim (PNumber (Finite 1)))]) [] 0
   = Inr ([\<lparr>oid = ''todo/a:x#0'', timestamp = ''1'',
             data = OpInitialize (Object [''v'' \<mapsto> Prim (PNumber (Finite 2))])\<rparr>,
           \<lparr>oid = ''todo/a:x'', timestamp = ''2'',
             data = OpSet (Key ''sub'') (Ref (ObjectRef 0 ''todo/a:x#0''))\<rparr>,
           \<lparr>oid = ''todo/a:x#sub'', timestamp = ''3'', data = OpDelete\<rparr>], 4)"
  using diffItems_replaces_identity
    [of "JObject None [(''v'', JPrim (PNumber (Finite 2)))]" sampleHelpers noOptions
      "''todo/a:x''" "Key ''sub''"
      "JObject (Some ''todo/a:x#sub'') [(''v'', JPrim (PNumber (Finite 1)))]"
      0 "''todo/a:x#0''" 1 "JObject (Some ''todo/a:x#0'') [(''v'', JPrim (PNumber (Finite 2)))]" 1
      "[]" "[]"]
  by (simp add: resolveValueOid_def noOptions_def sampleHelpers_def showNat.simps digitChar_def
      Let_def)

end
